theory Spec2Isabelle
  imports Main
begin

section \<open>Python values and outcomes\<close>

text \<open>
  The module \<^verbatim>\<open>decorator/decorator.py\<close> is untyped higher-order Python: its functions take
  and return callables, test \<^verbatim>\<open>g is None\<close>, \<^verbatim>\<open>g is __undefined\<close> and \<^verbatim>\<open>callable(g)\<close>, and
  build \<^verbatim>\<open>functools.partial\<close> objects.  The values are therefore one universe \<open>val\<close>, in
  which every function object of the module is a constructor and a user-supplied function
  is an opaque \<open>Func k\<close> whose body and attributes come from an environment.

  \<^item> \<open>Undefined\<close> is the module's sentinel \<^verbatim>\<open>__undefined = object()\<close>.
  \<^item> \<open>Partial func args d\<close> is \<^verbatim>\<open>functools.partial(func, *args)\<close> with instance dictionary
    \<open>d\<close>; the module never binds keywords in a partial, so none are stored.
  \<^item> \<open>DecoratedFn\<close> is the function \<^verbatim>\<open>decorated\<close>; \<open>PipeLambda decorators\<close> is the lambda
    built in \<^verbatim>\<open>pipe\<close>, closed over the tuple \<^verbatim>\<open>decorators\<close>; \<open>OptionalFn\<close> and \<open>Optional2Fn\<close>
    are the functions \<^verbatim>\<open>optional\<close> and \<^verbatim>\<open>optional2\<close> as their \<^verbatim>\<open>def\<close> statements create
    them, before the \<^verbatim>\<open>@decorated\<close> line above each of them is applied.
\<close>

datatype val =
    PyNone
  | Undefined
  | PyInt int
  | PyStr string
  | Func nat
  | Partial val "val list" "string \<Rightarrow> val option"
  | DecoratedFn
  | PipeLambda "val list"
  | OptionalFn
  | Optional2Fn

type_synonym kwargs = "(string \<times> val) list"

datatype exn = TypeError string | OtherError string

text \<open>
  A call returns a value, raises, or exhausts the call depth it was given (\<open>Timeout\<close>).
\<close>

datatype outcome = Return val | Raise exn | Timeout

text \<open>
  A computation may read and write the program state \<open>'s\<close> (globals, output, whatever
  the user's functions touch); the module itself never does.
\<close>

type_synonym 's comp = "'s \<Rightarrow> outcome \<times> 's"

type_synonym 's caller = "val \<Rightarrow> val list \<Rightarrow> kwargs \<Rightarrow> 's comp"

text \<open>
  The environment: \<open>fn_body env k\<close> is the body of the user function \<open>Func k\<close>, given the
  means to call any value; \<open>obj_attr env v a\<close> is \<^verbatim>\<open>getattr(v, a)\<close> for an object that is not
  a partial (\<open>None\<close> for \<^verbatim>\<open>AttributeError\<close>); \<open>obj_dict env v\<close> is its \<^verbatim>\<open>__dict__\<close>;
  \<open>partial_attr env a\<close> is an attribute every partial object inherits from its class.
\<close>

record 's env =
  fn_body :: "nat \<Rightarrow> 's caller \<Rightarrow> val list \<Rightarrow> kwargs \<Rightarrow> 's comp"
  obj_attr :: "val \<Rightarrow> string \<Rightarrow> val option"
  obj_dict :: "val \<Rightarrow> (string \<rightharpoonup> val)"
  partial_attr :: "string \<Rightarrow> val option"

section \<open>The builtins and \<^verbatim>\<open>functools\<close> functions the module uses\<close>

fun callable :: "val \<Rightarrow> bool" where
  "callable PyNone = False"
| "callable Undefined = False"
| "callable (PyInt i) = False"
| "callable (PyStr s) = False"
| "callable (Func k) = True"
| "callable (Partial func args d) = True"
| "callable DecoratedFn = True"
| "callable (PipeLambda decorators) = True"
| "callable OptionalFn = True"
| "callable Optional2Fn = True"

definition getattr_py :: "'s env \<Rightarrow> val \<Rightarrow> string \<Rightarrow> val option" where
  "getattr_py env obj name =
     (case obj of
        Partial func args d \<Rightarrow>
          (case d name of Some v \<Rightarrow> Some v | None \<Rightarrow> partial_attr env name)
      | _ \<Rightarrow> obj_attr env obj name)"

definition vars_py :: "'s env \<Rightarrow> val \<Rightarrow> (string \<rightharpoonup> val)" where
  "vars_py env obj = (case obj of Partial func args d \<Rightarrow> d | _ \<Rightarrow> obj_dict env obj)"

text \<open>
  \<^verbatim>\<open>functools.partial(func, *args)\<close>: the first argument must be callable.  Where
  CPython merges a partial of a partial object that has no instance dictionary into one
  object, the model keeps the two nested; a call of either passes the same arguments to
  the same function.
\<close>

definition partial :: "val \<Rightarrow> val list \<Rightarrow> outcome" where
  "partial func args =
     (if callable func then Return (Partial func args Map.empty)
      else Raise (TypeError ''the first argument must be callable''))"

definition WRAPPER_ASSIGNMENTS :: "string list" where
  "WRAPPER_ASSIGNMENTS =
     [''__module__'', ''__name__'', ''__qualname__'', ''__doc__'', ''__annotations__'']"

text \<open>
  \<^verbatim>\<open>functools.update_wrapper(wrapper, wrapped)\<close>: each attribute of \<^verbatim>\<open>WRAPPER_ASSIGNMENTS\<close>
  that \<^verbatim>\<open>wrapped\<close> has is set on \<^verbatim>\<open>wrapper\<close>, \<^verbatim>\<open>wrapper.__dict__\<close> is updated with
  \<^verbatim>\<open>wrapped.__dict__\<close>, and \<^verbatim>\<open>wrapper.__wrapped__\<close> is set to \<^verbatim>\<open>wrapped\<close>.  The module only
  ever passes a fresh partial object as \<^verbatim>\<open>wrapper\<close>.
\<close>

definition updated_dict :: "'s env \<Rightarrow> (string \<rightharpoonup> val) \<Rightarrow> val \<Rightarrow> (string \<rightharpoonup> val)" where
  "updated_dict env d wrapped =
     (let d1 = fold (\<lambda>name acc. case getattr_py env wrapped name of
                                   None \<Rightarrow> acc
                                 | Some v \<Rightarrow> acc(name \<mapsto> v))
                    WRAPPER_ASSIGNMENTS d;
          d2 = d1 ++ vars_py env wrapped
      in d2(''__wrapped__'' \<mapsto> wrapped))"

definition update_wrapper :: "'s env \<Rightarrow> val \<Rightarrow> val \<Rightarrow> val" where
  "update_wrapper env wrapper wrapped =
     (case wrapper of
        Partial func args d \<Rightarrow> Partial func args (updated_dict env d wrapped)
      | _ \<Rightarrow> wrapper)"

text \<open>\<^verbatim>\<open>functools.reduce(function, iterable, initial)\<close>, stopping at the first exception.\<close>

fun reduce :: "(val \<Rightarrow> val \<Rightarrow> 's comp) \<Rightarrow> val list \<Rightarrow> val \<Rightarrow> 's comp" where
  "reduce function [] acc s = (Return acc, s)"
| "reduce function (x # xs) acc s =
     (case function acc x s of
        (Return acc', s') \<Rightarrow> reduce function xs acc' s'
      | (other, s') \<Rightarrow> (other, s'))"

section \<open>The module\<close>

text \<open>
  \<^verbatim>\<open>
  def decorated(f, g=None, /):
      if g is None:
          return update_wrapper(partial(decorated, f), f)
      return update_wrapper(partial(f, g), g)
  \<close>
\<close>

definition decorated :: "'s env \<Rightarrow> val \<Rightarrow> val \<Rightarrow> outcome" where
  "decorated env f g =
     (if g = PyNone then
        (case partial DecoratedFn [f] of
           Return p \<Rightarrow> Return (update_wrapper env p f)
         | other \<Rightarrow> other)
      else
        (case partial f [g] of
           Return p \<Rightarrow> Return (update_wrapper env p g)
         | other \<Rightarrow> other))"

text \<open>
  Binding the arguments of a call of \<^verbatim>\<open>decorated\<close>: one or two positional arguments, the
  second defaulting to \<^verbatim>\<open>None\<close>, and no keyword.
\<close>

definition decorated_call :: "'s env \<Rightarrow> val list \<Rightarrow> kwargs \<Rightarrow> outcome" where
  "decorated_call env args kwargs =
     (if kwargs \<noteq> [] then Raise (TypeError ''decorated() takes no keyword arguments'')
      else case args of
             [f] \<Rightarrow> decorated env f PyNone
           | [f, g] \<Rightarrow> decorated env f g
           | _ \<Rightarrow> Raise (TypeError ''decorated() takes from 1 to 2 positional arguments''))"

text \<open>
  \<^verbatim>\<open>
  def pipe(*decorators):
      return decorated(lambda fn, /, *args, **kwargs:
          reduce(lambda f, g, /: g(f), decorators, fn(*args, **kwargs))
      )

  def compose(*decorators):
      return pipe(*decorators[::-1])
  \<close>
  \<open>pipe_lambda\<close> is the body of the outer lambda; \<open>call\<close> is the way to call a value.
\<close>

definition pipe_lambda :: "'s caller \<Rightarrow> val list \<Rightarrow> val \<Rightarrow> val list \<Rightarrow> kwargs \<Rightarrow> 's comp" where
  "pipe_lambda call decorators fn args kwargs s =
     (case call fn args kwargs s of
        (Return initial, s') \<Rightarrow> reduce (\<lambda>f g. call g [f] []) decorators initial s'
      | (other, s') \<Rightarrow> (other, s'))"

definition pipe :: "'s env \<Rightarrow> val list \<Rightarrow> outcome" where
  "pipe env decorators = decorated env (PipeLambda decorators) PyNone"

definition compose :: "'s env \<Rightarrow> val list \<Rightarrow> outcome" where
  "compose env decorators = pipe env (rev decorators)"

text \<open>
  \<^verbatim>\<open>
  def optional(f, g=__undefined, /, **kwargs):
      return f(**kwargs) if g is __undefined else f(**kwargs)(g)
  \<close>
\<close>

definition optional :: "'s caller \<Rightarrow> val \<Rightarrow> val \<Rightarrow> kwargs \<Rightarrow> 's comp" where
  "optional call f g kwargs s =
     (if g = Undefined then call f [] kwargs s
      else (case call f [] kwargs s of
              (Return wrapper, s') \<Rightarrow> call wrapper [g] [] s'
            | (other, s') \<Rightarrow> (other, s')))"

text \<open>
  \<^verbatim>\<open>
  def optional2(f, g=__undefined, /, *args, **kwargs):
      if g is __undefined:
          return f(*args, **kwargs)
      elif callable(g):
          return f(*args, **kwargs)(g)
      else:
          return f(g, *args, **kwargs)
  \<close>
\<close>

definition optional2 :: "'s caller \<Rightarrow> val \<Rightarrow> val \<Rightarrow> val list \<Rightarrow> kwargs \<Rightarrow> 's comp" where
  "optional2 call f g args kwargs s =
     (if g = Undefined then call f args kwargs s
      else if callable g then
        (case call f args kwargs s of
           (Return wrapper, s') \<Rightarrow> call wrapper [g] [] s'
         | (other, s') \<Rightarrow> (other, s'))
      else call f (g # args) kwargs s)"

section \<open>Calling a value\<close>

text \<open>
  \<open>call n env v args kwargs\<close> is the call \<^verbatim>\<open>v(*args, **kwargs)\<close> with \<open>n\<close> nested calls
  allowed.  Each function object binds its parameters as its signature says: a partial
  prepends its bound arguments; the lambda of \<^verbatim>\<open>pipe\<close> needs \<^verbatim>\<open>fn\<close>; \<^verbatim>\<open>optional\<close> takes
  \<^verbatim>\<open>f\<close>, at most one more positional argument and any keywords; \<^verbatim>\<open>optional2\<close> takes
  \<^verbatim>\<open>f\<close> and any further arguments.
\<close>

primrec call :: "nat \<Rightarrow> 's env \<Rightarrow> val \<Rightarrow> val list \<Rightarrow> kwargs \<Rightarrow> 's comp" where
  "call 0 env v args kwargs s = (Timeout, s)"
| "call (Suc n) env v args kwargs s =
     (case v of
        Func k \<Rightarrow> fn_body env k (call n env) args kwargs s
      | Partial func bound d \<Rightarrow> call n env func (bound @ args) kwargs s
      | DecoratedFn \<Rightarrow> (decorated_call env args kwargs, s)
      | PipeLambda decorators \<Rightarrow>
          (case args of
             [] \<Rightarrow> (Raise (TypeError ''<lambda>() missing 1 required positional argument''), s)
           | fn # rest \<Rightarrow> pipe_lambda (call n env) decorators fn rest kwargs s)
      | OptionalFn \<Rightarrow>
          (case args of
             [f] \<Rightarrow> optional (call n env) f Undefined kwargs s
           | [f, g] \<Rightarrow> optional (call n env) f g kwargs s
           | _ \<Rightarrow> (Raise (TypeError ''optional() takes from 1 to 2 positional arguments''), s))
      | Optional2Fn \<Rightarrow>
          (case args of
             [] \<Rightarrow> (Raise (TypeError ''optional2() missing 1 required positional argument''), s)
           | [f] \<Rightarrow> optional2 (call n env) f Undefined [] kwargs s
           | f # g # rest \<Rightarrow> optional2 (call n env) f g rest kwargs s)
      | _ \<Rightarrow> (Raise (TypeError ''object is not callable''), s))"

text \<open>\<open>then_call n env r args kwargs\<close> calls the value that an earlier step \<open>r\<close> returned.\<close>

definition then_call :: "nat \<Rightarrow> 's env \<Rightarrow> outcome \<times> 's \<Rightarrow> val list \<Rightarrow> kwargs \<Rightarrow> outcome \<times> 's" where
  "then_call n env r args kwargs =
     (case r of
        (Return v, s) \<Rightarrow> call n env v args kwargs s
      | (other, s) \<Rightarrow> (other, s))"

text \<open>
  The names \<^verbatim>\<open>optional\<close> and \<^verbatim>\<open>optional2\<close> of the module, after the \<^verbatim>\<open>@decorated\<close> line
  above each definition has run.
\<close>

definition decorated_optional :: "'s env \<Rightarrow> outcome" where
  "decorated_optional env = decorated env OptionalFn PyNone"

definition decorated_optional2 :: "'s env \<Rightarrow> outcome" where
  "decorated_optional2 env = decorated env Optional2Fn PyNone"

text \<open>
  \<^verbatim>\<open>optional(factory)\<close> and \<^verbatim>\<open>optional2(factory)\<close>: what the line \<^verbatim>\<open>@optional\<close> or
  \<^verbatim>\<open>@optional2\<close> above the definition of a factory binds the factory's name to.
\<close>

definition apply_optional :: "nat \<Rightarrow> 's env \<Rightarrow> val \<Rightarrow> 's comp" where
  "apply_optional m env factory s = then_call m env (decorated_optional env, s) [factory] []"

definition apply_optional2 :: "nat \<Rightarrow> 's env \<Rightarrow> val \<Rightarrow> 's comp" where
  "apply_optional2 m env factory s = then_call m env (decorated_optional2 env, s) [factory] []"

section \<open>Identity metadata\<close>




section \<open>A small program using the module\<close>

text \<open>
  The user functions of the examples below; the program state is the list of the values
  printed so far.
  \<^verbatim>\<open>
  def seven(*args, **kwargs):            # Func 0
      "Return seven."
      return 7
  def silence(fn, /):                    # Func 1: a decorator that replaces its target
      return zero
  def zero(*args, **kwargs):             # Func 2
      return 0
  def same(fn, /):                       # Func 3: the decorator that changes nothing
      return fn
  def framed(bar, baz, fn, /, *args, **kwargs):   # Func 4
      print(bar)
      r = fn(*args, **kwargs)
      print(baz)
      return r
  def foo(bar='bar', baz='baz'):         # Func 5: the factory of the docstrings
      return decorated(partial(framed, bar, baz))
  def G(a, b=2):                         # Func 6: a factory with a required parameter
      return decorated(partial(framed, a, b))
  \<close>
  \<open>bind_params\<close> binds the arguments of a call to parameters that may be given by
  position or by keyword, each with its default if it has one: a \<^verbatim>\<open>TypeError\<close> when there
  are too many positional arguments, when a keyword names no parameter or one already
  given by position, or when a parameter with no default is not given.
\<close>

fun fill_params :: "(string \<times> val option) list \<Rightarrow> kwargs \<Rightarrow> val list \<Rightarrow> string + val list" where
  "fill_params [] kwargs bound = Inr bound"
| "fill_params ((name, dflt) # params) kwargs bound =
     (case map_of kwargs name of
        Some v \<Rightarrow> fill_params params kwargs (bound @ [v])
      | None \<Rightarrow>
          (case dflt of
             Some v \<Rightarrow> fill_params params kwargs (bound @ [v])
           | None \<Rightarrow> Inl (''missing 1 required positional argument: '' @ name)))"

definition bind_params :: "(string \<times> val option) list \<Rightarrow> val list \<Rightarrow> kwargs \<Rightarrow> string + val list" where
  "bind_params params args kwargs =
     (if length params < length args then Inl ''takes too many positional arguments''
      else if list_ex (\<lambda>(name, v). name \<notin> set (map fst (drop (length args) params))) kwargs
      then Inl ''got an unexpected keyword argument''
      else fill_params (drop (length args) params) kwargs args)"

definition demo_body :: "nat \<Rightarrow> (val list) caller \<Rightarrow> val list \<Rightarrow> kwargs \<Rightarrow> (val list) comp" where
  "demo_body k invoke args kwargs s =
     (if k = 0 then (Return (PyInt 7), s)
      else if k = 1 then
        (case (args, kwargs) of
           ([fn], []) \<Rightarrow> (Return (Func 2), s)
         | _ \<Rightarrow> (Raise (TypeError ''silence() takes exactly one positional argument''), s))
      else if k = 2 then (Return (PyInt 0), s)
      else if k = 3 then
        (case (args, kwargs) of
           ([fn], []) \<Rightarrow> (Return fn, s)
         | _ \<Rightarrow> (Raise (TypeError ''same() takes exactly one positional argument''), s))
      else if k = 4 then
        (case args of
           bar # baz # fn # rest \<Rightarrow>
             (case invoke fn rest kwargs (s @ [bar]) of
                (Return r, s') \<Rightarrow> (Return r, s' @ [baz])
              | (other, s') \<Rightarrow> (other, s'))
         | _ \<Rightarrow> (Raise (TypeError ''framed() missing required positional arguments''), s))
      else if k = 5 then
        (case bind_params [(''bar'', Some (PyStr ''bar'')), (''baz'', Some (PyStr ''baz''))]
                args kwargs of
           Inl msg \<Rightarrow> (Raise (TypeError (''foo() '' @ msg)), s)
         | Inr bound \<Rightarrow> invoke DecoratedFn [Partial (Func 4) bound Map.empty] [] s)
      else if k = 6 then
        (case bind_params [(''a'', None), (''b'', Some (PyInt 2))] args kwargs of
           Inl msg \<Rightarrow> (Raise (TypeError (''G() '' @ msg)), s)
         | Inr bound \<Rightarrow> invoke DecoratedFn [Partial (Func 4) bound Map.empty] [] s)
      else (Raise (OtherError ''NameError''), s))"

text \<open>
  Of the attributes of the user functions, the examples look at the name and the
  documentation only; a partial object inherits the documentation of its class.
\<close>

definition demo_names :: "string list" where
  "demo_names = [''seven'', ''silence'', ''zero'', ''same'', ''framed'', ''foo'', ''G'']"

definition demo_attr :: "val \<Rightarrow> string \<Rightarrow> val option" where
  "demo_attr obj name =
     (case obj of
        Func k \<Rightarrow>
          (if name = ''__name__'' \<and> k < length demo_names then Some (PyStr (demo_names ! k))
           else if name = ''__doc__'' then Some (if k = 0 then PyStr ''Return seven.'' else PyNone)
           else None)
      | _ \<Rightarrow> None)"

definition demo_env :: "(val list) env" where
  "demo_env = \<lparr> fn_body = demo_body,
                obj_attr = demo_attr,
                obj_dict = (\<lambda>obj. Map.empty),
                partial_attr = (\<lambda>name. if name = ''__doc__''
                                        then Some (PyStr ''partial(func, *args, **keywords)'')
                                        else None) \<rparr>"

text \<open>The object that \<^verbatim>\<open>pipe(same, same)\<close> returns in this program.\<close>

definition demo_inner_pipe :: val where
  "demo_inner_pipe =
     Partial DecoratedFn [PipeLambda [Func 3, Func 3]]
       (updated_dict demo_env Map.empty (PipeLambda [Func 3, Func 3]))"


section \<open>Basic facts\<close>

lemma callable_not_None: "callable v \<Longrightarrow> v \<noteq> PyNone"
  by auto

lemma callable_not_Undefined: "callable v \<Longrightarrow> v \<noteq> Undefined"
  by auto

lemma update_wrapper_Partial:
  "update_wrapper env (Partial func args d) wrapped = Partial func args (updated_dict env d wrapped)"
  by (simp add: update_wrapper_def)

lemma decorated_None:
  "decorated env f PyNone = Return (Partial DecoratedFn [f] (updated_dict env Map.empty f))"
  by (simp add: decorated_def partial_def update_wrapper_Partial)

lemma decorated_target:
  "callable f \<Longrightarrow> g \<noteq> PyNone \<Longrightarrow>
   decorated env f g = Return (Partial f [g] (updated_dict env Map.empty g))"
  by (simp add: decorated_def partial_def update_wrapper_Partial)

lemma then_call_Return: "then_call n env (Return v, s) args kwargs = call n env v args kwargs s"
  by (simp add: then_call_def)

lemma then_call_Raise: "then_call n env (Raise e, s) args kwargs = (Raise e, s)"
  by (simp add: then_call_def)

lemma then_call_Timeout: "then_call n env (Timeout, s) args kwargs = (Timeout, s)"
  by (simp add: then_call_def)

lemmas then_call_simps = then_call_Return then_call_Raise then_call_Timeout

lemma call_pending:
  "then_call (Suc (Suc m)) env (decorated env f PyNone, s) [g] [] = (decorated env f g, s)"
  by (simp add: then_call_simps decorated_None decorated_call_def)

lemma apply_optional_eq:
  "factory \<noteq> PyNone \<Longrightarrow>
   apply_optional (Suc (Suc m)) env factory s =
   (Return (Partial OptionalFn [factory] (updated_dict env Map.empty factory)), s)"
  by (simp add: apply_optional_def decorated_optional_def call_pending decorated_target)

lemma apply_optional2_eq:
  "factory \<noteq> PyNone \<Longrightarrow>
   apply_optional2 (Suc (Suc m)) env factory s =
   (Return (Partial Optional2Fn [factory] (updated_dict env Map.empty factory)), s)"
  by (simp add: apply_optional2_def decorated_optional2_def call_pending decorated_target)

lemma pipe_apply:
  "t \<noteq> PyNone \<Longrightarrow>
   then_call (Suc (Suc m)) env (pipe env ds, s) [t] [] =
   (Return (Partial (PipeLambda ds) [t] (updated_dict env Map.empty t)), s)"
  by (simp add: pipe_def call_pending decorated_target)

lemma pipe_applied_call:
  "t \<noteq> PyNone \<Longrightarrow>
   then_call (Suc (Suc n)) env (then_call (Suc (Suc m)) env (pipe env ds, s) [t] []) args kwargs =
   pipe_lambda (call n env) ds t args kwargs s"
  by (simp add: pipe_apply then_call_simps)

lemma Partial_neq_bound: "Partial f [t] d \<noteq> t"
proof
  assume "Partial f [t] d = t"
  then have "size (Partial f [t] d) = size t" by simp
  then show False by simp
qed

subsection \<open>What \<^verbatim>\<open>update_wrapper\<close> leaves in the wrapper\<close>




subsection \<open>Running the small program\<close>

lemma demo_fn_body: "fn_body demo_env = demo_body"
  by (simp add: demo_env_def)


lemmas demo_eval = eval_nat_numeral then_call_simps demo_fn_body demo_body_def bind_params_def
  decorated_call_def pipe_lambda_def optional_def optional2_def decorated_None decorated_target
  pipe_apply apply_optional_eq apply_optional2_eq

section \<open>The claims\<close>

subsection \<open>C1: what a pipe computes\<close>

text \<open>
  C1 says that \<^verbatim>\<open>pipe(w1, ..., wn)\<close> applied to a target \<^verbatim>\<open>t\<close> computes
  \<^verbatim>\<open>wn(...(w1(t)))\<close>.  The lambda of \<^verbatim>\<open>pipe\<close> starts the reduction from
  \<^verbatim>\<open>fn(*args, **kwargs)\<close>, not from \<^verbatim>\<open>fn\<close>, so the wrappers receive what the target
  returned (lemma \<open>pipe_applied_call\<close>).  With \<^verbatim>\<open>silence\<close> and \<^verbatim>\<open>seven\<close>:
  \<^verbatim>\<open>pipe(silence)(seven)()\<close> returns the function \<^verbatim>\<open>zero\<close>, which is \<^verbatim>\<open>silence(7)\<close>,
  whereas \<^verbatim>\<open>silence(seven)()\<close> returns \<^verbatim>\<open>0\<close>; and \<^verbatim>\<open>pipe(silence)(seven)\<close> is not
  \<^verbatim>\<open>silence(seven)\<close>.
\<close>

theorem pipe_feeds_results_to_wrappers:
  "then_call 3 demo_env (then_call 2 demo_env (pipe demo_env [Func 1], []) [Func 0] []) [] [] =
     (Return (Func 2), [])
   \<and> then_call 3 demo_env (call 3 demo_env (Func 1) [Func 0] [] []) [] [] = (Return (PyInt 0), [])
   \<and> then_call 2 demo_env (pipe demo_env [Func 1], []) [Func 0] [] \<noteq> call 3 demo_env (Func 1) [Func 0] [] []"
  by (simp add: demo_eval)

subsection \<open>C2: the three branches of \<^verbatim>\<open>optional2\<close>\<close>

text \<open>
  C2: a factory adapted by \<^verbatim>\<open>optional2\<close> dispatches on its first argument.  With no
  argument, or with the sentinel, it calls the factory with the configuration given and
  returns what the factory returns; with an invokable first argument \<open>g\<close> it calls the
  factory with the rest of the configuration and applies the returned wrapper to \<open>g\<close>;
  with a first argument \<open>c\<close> that is not invokable it calls the factory with \<open>c\<close> put
  before the rest of the configuration and returns what the factory returns.
\<close>

theorem optional2_dispatch:
  assumes "callable factory"
  shows "then_call (Suc (Suc n)) env (apply_optional2 (Suc (Suc m)) env factory s) [] kwargs =
           call n env factory [] kwargs s
       \<and> then_call (Suc (Suc n)) env (apply_optional2 (Suc (Suc m)) env factory s) (Undefined # args) kwargs =
           call n env factory args kwargs s
       \<and> (callable g \<longrightarrow>
           then_call (Suc (Suc n)) env (apply_optional2 (Suc (Suc m)) env factory s) (g # args) kwargs =
           then_call n env (call n env factory args kwargs s) [g] [])
       \<and> (c \<noteq> Undefined \<and> \<not> callable c \<longrightarrow>
           then_call (Suc (Suc n)) env (apply_optional2 (Suc (Suc m)) env factory s) (c # args) kwargs =
           call n env factory (c # args) kwargs s)"
  using assms
  by (auto simp add: apply_optional2_eq callable_not_None then_call_def optional2_def callable_not_Undefined
      split: prod.splits outcome.splits list.splits)

text \<open>
  C2 at the factory \<^verbatim>\<open>foo\<close>: \<^verbatim>\<open>foo(baz='Z')\<close>, \<^verbatim>\<open>foo(seven, baz='Z')\<close> and
  \<^verbatim>\<open>foo('B', baz='Z')\<close>, the last one returning the pending wrapper configured with
  \<^verbatim>\<open>bar='B'\<close>.
\<close>

theorem optional2_dispatch_witness:
  "callable (Func 5)
   \<and> then_call (Suc (Suc 2)) demo_env (apply_optional2 (Suc (Suc 0)) demo_env (Func 5) [])
         [] [(''baz'', PyStr ''Z'')] =
       call 2 demo_env (Func 5) [] [(''baz'', PyStr ''Z'')] []
   \<and> then_call (Suc (Suc 2)) demo_env (apply_optional2 (Suc (Suc 0)) demo_env (Func 5) [])
         [Undefined] [(''baz'', PyStr ''Z'')] =
       call 2 demo_env (Func 5) [] [(''baz'', PyStr ''Z'')] []
   \<and> callable (Func 0)
   \<and> then_call (Suc (Suc 2)) demo_env (apply_optional2 (Suc (Suc 0)) demo_env (Func 5) [])
         [Func 0] [(''baz'', PyStr ''Z'')] =
       then_call 2 demo_env (call 2 demo_env (Func 5) [] [(''baz'', PyStr ''Z'')] []) [Func 0] []
   \<and> PyStr ''B'' \<noteq> Undefined \<and> \<not> callable (PyStr ''B'')
   \<and> then_call (Suc (Suc 2)) demo_env (apply_optional2 (Suc (Suc 0)) demo_env (Func 5) [])
         [PyStr ''B''] [(''baz'', PyStr ''Z'')] =
       call 2 demo_env (Func 5) [PyStr ''B''] [(''baz'', PyStr ''Z'')] []
   \<and> call 2 demo_env (Func 5) [PyStr ''B''] [(''baz'', PyStr ''Z'')] [] =
       (Return (Partial DecoratedFn [Partial (Func 4) [PyStr ''B'', PyStr ''Z''] Map.empty]
          (updated_dict demo_env Map.empty (Partial (Func 4) [PyStr ''B'', PyStr ''Z''] Map.empty))), [])"
  using optional2_dispatch [where factory = "Func 5" and g = "Func 0" and c = "PyStr ''B''"
      and env = demo_env and n = 2 and m = 0 and s = "[]" and args = "[]"
      and kwargs = "[(''baz'', PyStr ''Z'')]"]
  by (simp add: demo_eval)

subsection \<open>C3: what \<^verbatim>\<open>decorated(f)(target)\<close> is\<close>

text \<open>
  C3 as stated says that \<^verbatim>\<open>decorated(f)(target)\<close> equals \<^verbatim>\<open>f(decorated(f), target)\<close>.
  It is not so for \<^verbatim>\<open>f = zero\<close> and \<^verbatim>\<open>target = seven\<close>: \<^verbatim>\<open>decorated(zero)(seven)\<close> is
  the partial object \<^verbatim>\<open>partial(zero, seven)\<close>, and \<^verbatim>\<open>zero\<close> has not been called, whereas
  \<^verbatim>\<open>zero(decorated(zero), seven)\<close> is \<^verbatim>\<open>0\<close>.
\<close>

theorem decorated_does_not_call_definition:
  "decorated demo_env (Func 2) PyNone =
     Return (Partial DecoratedFn [Func 2] (updated_dict demo_env Map.empty (Func 2)))
   \<and> then_call 2 demo_env (decorated demo_env (Func 2) PyNone, []) [Func 0] [] =
       (Return (Partial (Func 2) [Func 0] (updated_dict demo_env Map.empty (Func 0))), [])
   \<and> call 2 demo_env (Func 2)
        [Partial DecoratedFn [Func 2] (updated_dict demo_env Map.empty (Func 2)), Func 0] [] [] =
       (Return (PyInt 0), [])
   \<and> then_call 2 demo_env (decorated demo_env (Func 2) PyNone, []) [Func 0] [] \<noteq>
       call 2 demo_env (Func 2)
        [Partial DecoratedFn [Func 2] (updated_dict demo_env Map.empty (Func 2)), Func 0] [] []"
  by (simp add: demo_eval)

text \<open>
  C3 as amended: for an invokable \<open>f\<close> and a target \<open>t\<close> other than \<^verbatim>\<open>None\<close>,
  \<^verbatim>\<open>decorated(f)(t)\<close> is \<^verbatim>\<open>decorated(f, t)\<close>, the partial application of \<open>f\<close> to the
  target; calling it with arguments calls \<^verbatim>\<open>f(t, *args, **kwargs)\<close>, so the first
  parameter of \<open>f\<close> receives the target.  And \<^verbatim>\<open>decorated(f)\<close> with no target returns an
  invokable object still expecting the target.
\<close>

theorem decorated_binds_target:
  assumes "callable f" and "t \<noteq> PyNone"
  shows "then_call (Suc (Suc m)) env (decorated env f PyNone, s) [t] [] = (decorated env f t, s)
       \<and> then_call (Suc n) env (then_call (Suc (Suc m)) env (decorated env f PyNone, s) [t] []) args kwargs =
           call n env f (t # args) kwargs s
       \<and> (\<exists>p. decorated env f PyNone = Return p \<and> callable p)"
  using assms
  by (simp add: call_pending decorated_target then_call_simps) (simp add: decorated_None)

text \<open>
  C3 as amended, at the definition \<^verbatim>\<open>partial(framed, 'in', 'out')\<close> and the target
  \<^verbatim>\<open>seven\<close>: the call of the decorated target prints \<^verbatim>\<open>in\<close>, calls \<^verbatim>\<open>seven\<close>, prints
  \<^verbatim>\<open>out\<close> and returns \<^verbatim>\<open>7\<close>.
\<close>

theorem decorated_binds_target_witness:
  "callable (Partial (Func 4) [PyStr ''in'', PyStr ''out''] Map.empty) \<and> Func 0 \<noteq> PyNone
   \<and> then_call (Suc 3) demo_env
        (then_call (Suc (Suc 0)) demo_env
           (decorated demo_env (Partial (Func 4) [PyStr ''in'', PyStr ''out''] Map.empty) PyNone, [])
           [Func 0] []) [] [] =
       call 3 demo_env (Partial (Func 4) [PyStr ''in'', PyStr ''out''] Map.empty) [Func 0] [] []
   \<and> call 3 demo_env (Partial (Func 4) [PyStr ''in'', PyStr ''out''] Map.empty) [Func 0] [] [] =
       (Return (PyInt 7), [PyStr ''in'', PyStr ''out''])"
proof -
  have c: "callable (Partial (Func 4) [PyStr ''in'', PyStr ''out''] Map.empty)" by simp
  have t: "Func 0 \<noteq> PyNone" by simp
  have r: "call 3 demo_env (Partial (Func 4) [PyStr ''in'', PyStr ''out''] Map.empty) [Func 0] [] [] =
      (Return (PyInt 7), [PyStr ''in'', PyStr ''out''])"
    by (simp add: eval_nat_numeral demo_fn_body demo_body_def)
  show ?thesis
    using c t r decorated_binds_target [OF c t, where env = demo_env and n = 3 and m = 0
        and s = "[]" and args = "[]" and kwargs = "[]"]
    by blast
qed

subsection \<open>C4: the empty composition\<close>

text \<open>
  C4 as stated says that \<^verbatim>\<open>pipe()(t)\<close> and \<^verbatim>\<open>compose()(t)\<close> return the target
  unchanged.  For \<^verbatim>\<open>t = seven\<close> neither returns \<^verbatim>\<open>seven\<close>: each returns a new partial
  object.
\<close>

theorem empty_pipe_is_not_identity:
  "then_call 2 demo_env (pipe demo_env [], []) [Func 0] [] \<noteq> (Return (Func 0), [])
   \<and> then_call 2 demo_env (compose demo_env [], []) [Func 0] [] \<noteq> (Return (Func 0), [])"
  by (simp add: eval_nat_numeral compose_def pipe_apply)

text \<open>
  C4 as amended: for a target \<open>t\<close> other than \<^verbatim>\<open>None\<close>, \<^verbatim>\<open>pipe()(t)\<close> and
  \<^verbatim>\<open>compose()(t)\<close> return a new object, never \<open>t\<close> itself, and calling that object with
  any arguments has the outcome of calling \<open>t\<close> with them (two calls deeper).
\<close>

theorem empty_pipe_calls_target:
  assumes "t \<noteq> PyNone"
  shows "then_call (Suc (Suc n)) env (then_call (Suc (Suc m)) env (pipe env [], s) [t] []) args kwargs =
           call n env t args kwargs s
       \<and> then_call (Suc (Suc n)) env (then_call (Suc (Suc m)) env (compose env [], s) [t] []) args kwargs =
           call n env t args kwargs s
       \<and> then_call (Suc (Suc m)) env (pipe env [], s) [t] [] \<noteq> (Return t, s)
       \<and> then_call (Suc (Suc m)) env (compose env [], s) [t] [] \<noteq> (Return t, s)"
proof -
  have run: "then_call (Suc (Suc n)) env (then_call (Suc (Suc m)) env (pipe env [], s) [t] []) args kwargs =
      call n env t args kwargs s"
    using assms by (simp add: pipe_applied_call pipe_lambda_def split: prod.splits outcome.splits)
  have fresh: "then_call (Suc (Suc m)) env (pipe env [], s) [t] [] \<noteq> (Return t, s)"
    using assms by (simp add: pipe_apply Partial_neq_bound)
  show ?thesis
    using run fresh by (simp add: compose_def)
qed

text \<open>
  C4 as amended, at the target \<^verbatim>\<open>seven\<close>: \<^verbatim>\<open>pipe()(seven)()\<close> and
  \<^verbatim>\<open>compose()(seven)()\<close> return \<^verbatim>\<open>7\<close>.
\<close>

theorem empty_pipe_calls_target_witness:
  "Func 0 \<noteq> PyNone
   \<and> then_call (Suc (Suc 1)) demo_env (then_call (Suc (Suc 0)) demo_env (pipe demo_env [], []) [Func 0] []) [] [] =
       call 1 demo_env (Func 0) [] [] []
   \<and> then_call (Suc (Suc 1)) demo_env (then_call (Suc (Suc 0)) demo_env (compose demo_env [], []) [Func 0] []) [] [] =
       call 1 demo_env (Func 0) [] [] []
   \<and> call 1 demo_env (Func 0) [] [] [] = (Return (PyInt 7), [])"
  using empty_pipe_calls_target [where t = "Func 0" and env = demo_env and n = 1 and m = 0
      and s = "[]" and args = "[]" and kwargs = "[]"]
  by (simp add: demo_fn_body demo_body_def)

subsection \<open>C5: nesting pipes\<close>

text \<open>
  C5 says that \<^verbatim>\<open>pipe(a, b, c)(t)\<close>, \<^verbatim>\<open>pipe(a, pipe(b, c))(t)\<close> and
  \<^verbatim>\<open>pipe(pipe(a, b), c)(t)\<close> behave alike.  With \<^verbatim>\<open>a = b = c = same\<close> and
  \<^verbatim>\<open>t = seven\<close>, calling the first returns \<^verbatim>\<open>7\<close>, while calling either nested form
  returns a pending partial object: the inner pipe is handed \<^verbatim>\<open>7\<close>, the result of the
  target, as if it were a target to decorate.
\<close>

theorem nested_pipe_differs_from_flat_pipe:
  "pipe demo_env [Func 3, Func 3] = Return demo_inner_pipe
   \<and> then_call 3 demo_env
        (then_call 2 demo_env (pipe demo_env [Func 3, Func 3, Func 3], []) [Func 0] []) [] [] =
       (Return (PyInt 7), [])
   \<and> then_call 5 demo_env
        (then_call 2 demo_env (pipe demo_env [Func 3, demo_inner_pipe], []) [Func 0] []) [] [] =
       (Return (Partial (PipeLambda [Func 3, Func 3]) [PyInt 7] (updated_dict demo_env Map.empty (PyInt 7))), [])
   \<and> then_call 5 demo_env
        (then_call 2 demo_env (pipe demo_env [demo_inner_pipe, Func 3], []) [Func 0] []) [] [] =
       (Return (Partial (PipeLambda [Func 3, Func 3]) [PyInt 7] (updated_dict demo_env Map.empty (PyInt 7))), [])"
  by (simp add: demo_eval demo_inner_pipe_def pipe_def)

subsection \<open>C6: \<^verbatim>\<open>optional\<close>, bare or called\<close>

text \<open>
  C6: for a factory adapted by \<^verbatim>\<open>optional\<close> and a target \<open>t\<close> (any value but the
  sentinel), applying the adapted factory to \<open>t\<close> has the outcome, and leaves the state,
  of calling the adapted factory with no argument and applying the wrapper it returns
  to \<open>t\<close>.
\<close>

theorem optional_bare_same_as_called:
  assumes "callable factory" and "t \<noteq> Undefined"
  shows "then_call (Suc (Suc n)) env (apply_optional (Suc (Suc m)) env factory s) [t] [] =
         then_call n env
           (then_call (Suc (Suc n)) env (apply_optional (Suc (Suc m)) env factory s) [] []) [t] []"
  using assms
  by (simp add: apply_optional_eq callable_not_None then_call_def optional_def
      split: prod.splits outcome.splits)

text \<open>
  C6 at the factory \<^verbatim>\<open>foo\<close> and the target \<^verbatim>\<open>seven\<close>: both forms give the same wrapped
  function, whose call prints \<^verbatim>\<open>bar\<close>, then \<^verbatim>\<open>baz\<close>, and returns \<^verbatim>\<open>7\<close>.
\<close>

theorem optional_bare_same_as_called_witness:
  "callable (Func 5) \<and> Func 0 \<noteq> Undefined
   \<and> then_call (Suc (Suc 2)) demo_env (apply_optional (Suc (Suc 0)) demo_env (Func 5) []) [Func 0] [] =
       then_call 2 demo_env
         (then_call (Suc (Suc 2)) demo_env (apply_optional (Suc (Suc 0)) demo_env (Func 5) []) [] [])
         [Func 0] []
   \<and> then_call 4 demo_env
         (then_call (Suc (Suc 2)) demo_env (apply_optional (Suc (Suc 0)) demo_env (Func 5) []) [Func 0] [])
         [] [] =
       (Return (PyInt 7), [PyStr ''bar'', PyStr ''baz''])"
  using optional_bare_same_as_called [where factory = "Func 5" and t = "Func 0" and env = demo_env
      and n = 2 and m = 0 and s = "[]"]
  by (simp add: demo_eval)

subsection \<open>C7: an invokable argument is always the target\<close>

text \<open>
  C7: when a factory adapted by \<^verbatim>\<open>optional2\<close> is called with one invokable argument
  \<open>v\<close>, the factory is called with no argument and the wrapper it returns is applied to
  \<open>v\<close>, whatever \<open>v\<close> was meant to be; the factory never receives \<open>v\<close>.
\<close>

theorem optional2_invokable_is_target:
  assumes "callable factory" and "callable v"
  shows "then_call (Suc (Suc n)) env (apply_optional2 (Suc (Suc m)) env factory s) [v] [] =
         then_call n env (call n env factory [] [] s) [v] []"
  using assms
  by (simp add: apply_optional2_eq callable_not_None then_call_def optional2_def callable_not_Undefined
      split: prod.splits outcome.splits)

text \<open>
  C7 at the factory \<^verbatim>\<open>G(a, b=2)\<close>: \<^verbatim>\<open>G(seven)\<close>, with \<^verbatim>\<open>seven\<close> meant as the
  value of \<^verbatim>\<open>a\<close>, calls \<^verbatim>\<open>G()\<close>, which raises.
\<close>

theorem optional2_invokable_is_target_witness:
  "callable (Func 6) \<and> callable (Func 0)
   \<and> then_call (Suc (Suc 2)) demo_env (apply_optional2 (Suc (Suc 0)) demo_env (Func 6) []) [Func 0] [] =
       then_call 2 demo_env (call 2 demo_env (Func 6) [] [] []) [Func 0] []
   \<and> then_call (Suc (Suc 2)) demo_env (apply_optional2 (Suc (Suc 0)) demo_env (Func 6) []) [Func 0] [] =
       (Raise (TypeError ''G() missing 1 required positional argument: a''), [])"
  using optional2_invokable_is_target [where factory = "Func 6" and v = "Func 0" and env = demo_env
      and n = 2 and m = 0 and s = "[]"]
  by (simp add: demo_eval)

subsection \<open>C8: a missing required argument\<close>

text \<open>
  C8: when the factory called with no argument raises, calling the factory adapted by
  \<^verbatim>\<open>optional2\<close> with no argument raises the same exception, and leaves the same state.
\<close>

theorem optional2_missing_argument_propagates:
  assumes "callable factory" and "call n env factory [] [] s = (Raise e, s')"
  shows "then_call (Suc (Suc n)) env (apply_optional2 (Suc (Suc m)) env factory s) [] [] = (Raise e, s')"
  using assms
  by (simp add: apply_optional2_eq callable_not_None then_call_def optional2_def)

text \<open>
  C8 at the factory \<^verbatim>\<open>G(a, b=2)\<close>: \<^verbatim>\<open>G()\<close> raises the \<^verbatim>\<open>TypeError\<close> of the
  missing argument \<^verbatim>\<open>a\<close>.
\<close>

theorem optional2_missing_argument_propagates_witness:
  "callable (Func 6)
   \<and> call 1 demo_env (Func 6) [] [] [] =
       (Raise (TypeError ''G() missing 1 required positional argument: a''), [])
   \<and> then_call (Suc (Suc 1)) demo_env (apply_optional2 (Suc (Suc 0)) demo_env (Func 6) []) [] [] =
       (Raise (TypeError ''G() missing 1 required positional argument: a''), [])"
proof -
  have c: "callable (Func 6)" by simp
  have r: "call 1 demo_env (Func 6) [] [] [] =
      (Raise (TypeError ''G() missing 1 required positional argument: a''), [])"
    by (simp add: demo_fn_body demo_body_def bind_params_def)
  show ?thesis
    using c r optional2_missing_argument_propagates [OF c r, where m = 0] by simp
qed

subsection \<open>C9: identity metadata\<close>




subsection \<open>C10: \<^verbatim>\<open>None\<close> is no target\<close>

text \<open>
  C10: \<^verbatim>\<open>decorated(f, None)\<close> is \<^verbatim>\<open>decorated(f)\<close>, and \<^verbatim>\<open>decorated(f)(None)\<close> returns
  that same pending decorator: a partial application of \<^verbatim>\<open>decorated\<close> to \<open>f\<close>, never the
  partial application of \<open>f\<close> to \<^verbatim>\<open>None\<close>.
\<close>

theorem decorated_None_is_pending:
  "call (Suc n) env DecoratedFn [f, PyNone] [] s = call (Suc n) env DecoratedFn [f] [] s
   \<and> call (Suc n) env DecoratedFn [f] [] s = (decorated env f PyNone, s)
   \<and> then_call (Suc (Suc n)) env (decorated env f PyNone, s) [PyNone] [] = (decorated env f PyNone, s)
   \<and> decorated env f PyNone = Return (update_wrapper env (Partial DecoratedFn [f] Map.empty) f)
   \<and> decorated env f PyNone \<noteq> Return (update_wrapper env (Partial f [PyNone] Map.empty) PyNone)"
proof -
  have a: "then_call (Suc (Suc n)) env (decorated env f PyNone, s) [PyNone] [] = (decorated env f PyNone, s)"
    by (rule call_pending)
  have b: "decorated env f PyNone \<noteq> Return (update_wrapper env (Partial f [PyNone] Map.empty) PyNone)"
    by (auto simp add: decorated_None update_wrapper_Partial)
  show ?thesis
    using a b by (simp add: decorated_call_def decorated_None update_wrapper_Partial)
qed

end
